theory Spec2Isabelle
  imports Main
begin

section \<open>Go values the wrapper handles\<close>

text \<open>
  A Go \<open>error\<close> is a value with an \<open>Error()\<close> message. \<open>os.Open\<close> fails with a
  \<open>*fs.PathError\<close> (operation, path, cause); \<open>fmt.Errorf\<close> without \<open>%w\<close> builds a
  plain error whose only content is the formatted message. Errors coming out of the
  Pulp SDK are arbitrary values of this type: the wrapper only reads their message.
\<close>

datatype error = PathError string string string | ErrorString string

fun Error :: "error \<Rightarrow> string" where
  "Error (PathError op path cause) = op @ '' '' @ path @ '': '' @ cause"
| "Error (ErrorString s) = s"

text \<open>
  \<open>*os.File\<close>: the handle \<open>os.Open\<close> returns, identified by the path it was opened at.
\<close>

datatype File = File string

text \<open>
  \<open>*http.Response\<close>, reduced to what \<open>readBody\<close> touches: \<open>Body\<close> is the outcome of
  \<open>io.ReadAll(r.Body)\<close>, the bytes of the body or the read error.
\<close>

record Response =
  StatusCode :: int
  Body :: "error + string"

subsection \<open>The request context\<close>

datatype ContextKey = ContextServerIndex | ContextBasicAuth

record BasicAuth =
  UserName :: string
  BasicAuth_Password :: string

datatype ContextValue = IntValue int | BasicAuthValue BasicAuth

text \<open>
  A \<open>context.Context\<close> is the chain of \<open>WithValue\<close> bindings, the newest first;
  \<open>Value\<close> returns the newest binding of a key.
\<close>

type_synonym Context = "(ContextKey \<times> ContextValue) list"

definition Background :: Context where
  "Background = []"

definition WithValue :: "Context \<Rightarrow> ContextKey \<Rightarrow> ContextValue \<Rightarrow> Context" where
  "WithValue parent k v = (k, v) # parent"

definition Value :: "Context \<Rightarrow> ContextKey \<Rightarrow> ContextValue option" where
  "Value c k = map_of c k"

subsection \<open>Configuration of the SDK client\<close>

datatype http_Transport = http_Transport

record http_Client =
  Transport :: http_Transport

record ServerConfiguration =
  URL :: string

text \<open>
  Modelled from the spec: the package \<open>pulpclient\<close>, the generated SDK of the remote
  service, has no source file here; the spec treats it as an opaque typed HTTP client
  bound to one server endpoint. \<open>Configuration\<close> has the two fields \<open>NewClient\<close>
  assigns; every other field keeps the value \<open>pulpclient.NewConfiguration()\<close> gave it
  and is not read by the wrapper. \<open>NewAPIClient\<close> stores the configuration.
\<close>

record Configuration =
  HTTPClient :: "http_Client option"
  Servers :: "ServerConfiguration list"

record APIClient =
  cfg :: Configuration

definition NewAPIClient :: "Configuration \<Rightarrow> APIClient" where
  "NewAPIClient c = \<lparr>cfg = c\<rparr>"

record Client =
  client :: APIClient
  ctx :: Context

record Credentials =
  Username :: string
  Password :: string

subsection \<open>Request and response models of the SDK\<close>

text \<open>
  Modelled from the spec: the request and response types of \<open>pulpclient\<close>, which have
  no source file here, with the fields the wrapper reads or assigns. A field that the
  service may leave out is a pointer in Go and an \<open>option\<close> here.
  \<open>NullableString\<close> is the type of an optional request field such as the description:
  a string pointer and the flag that says whether the field was set. Its zero value is
  unset, and \<open>NewNullableString\<close> sets it.
\<close>

datatype NullableString = NullableString (Get: "string option") (IsSet: bool)

definition NewNullableString :: "string option \<Rightarrow> NullableString" where
  "NewNullableString v = NullableString v True"

definition NullableString_zero :: NullableString where
  "NullableString_zero = NullableString None False"

record ArtifactResponse =
  artifact_PulpHref :: "string option"

record OstreeOstreeRepository =
  Name :: string
  Description :: NullableString

record OstreeOstreeRepositoryResponse =
  repository_PulpHref :: "string option"
  repository_Name :: string

record PaginatedostreeOstreeRepositoryResponseList =
  Count :: int
  Results :: "OstreeOstreeRepositoryResponse list"

record OstreeImportAll =
  Artifact :: string
  RepositoryName :: string

record OstreeOstreeDistribution =
  BasePath :: string
  distribution_Name :: string
  Repository :: NullableString

record AsyncOperationResponse =
  Task :: string

record TaskResponse =
  State :: "string option"

text \<open>
  Modelled from the spec: the getters and constructors of \<open>pulpclient\<close> the wrapper
  calls, which have no source file here. The getters are nil-safe: on a nil receiver or
  a missing optional field they return the zero value of the field's type, the empty
  string for an href or a state. The constructors fill the required fields and leave
  the optional ones unset; \<open>SetRepository\<close> sets the optional repository href.
\<close>

definition ArtifactResponse_GetPulpHref :: "ArtifactResponse option \<Rightarrow> string" where
  "ArtifactResponse_GetPulpHref p =
     (case p of None \<Rightarrow> '''' | Some r \<Rightarrow> (case artifact_PulpHref r of None \<Rightarrow> '''' | Some h \<Rightarrow> h))"

definition Repository_GetPulpHref :: "OstreeOstreeRepositoryResponse option \<Rightarrow> string" where
  "Repository_GetPulpHref p =
     (case p of None \<Rightarrow> '''' | Some r \<Rightarrow> (case repository_PulpHref r of None \<Rightarrow> '''' | Some h \<Rightarrow> h))"

definition GetCount :: "PaginatedostreeOstreeRepositoryResponseList option \<Rightarrow> int" where
  "GetCount p = (case p of None \<Rightarrow> 0 | Some l \<Rightarrow> Count l)"

definition GetResults ::
  "PaginatedostreeOstreeRepositoryResponseList option \<Rightarrow> OstreeOstreeRepositoryResponse list" where
  "GetResults p = (case p of None \<Rightarrow> [] | Some l \<Rightarrow> Results l)"

definition GetState :: "TaskResponse option \<Rightarrow> string" where
  "GetState p = (case p of None \<Rightarrow> '''' | Some r \<Rightarrow> (case State r of None \<Rightarrow> '''' | Some s \<Rightarrow> s))"

definition NewOstreeImportAll :: "string \<Rightarrow> string \<Rightarrow> OstreeImportAll" where
  "NewOstreeImportAll artifact repositoryName =
     \<lparr>Artifact = artifact, RepositoryName = repositoryName\<rparr>"

definition NewOstreeOstreeDistribution :: "string \<Rightarrow> string \<Rightarrow> OstreeOstreeDistribution" where
  "NewOstreeOstreeDistribution basePath name =
     \<lparr>BasePath = basePath, distribution_Name = name, Repository = NullableString_zero\<rparr>"

definition SetRepository :: "string \<Rightarrow> OstreeOstreeDistribution \<Rightarrow> OstreeOstreeDistribution" where
  "SetRepository v d = d\<lparr>Repository := NullableString (Some v) True\<rparr>"

text \<open>
  Modelled from the spec: the serialisation of an \<open>OstreeOstreeRepository\<close> by
  \<open>pulpclient\<close>, which has no source file here, as far as the two fields the wrapper
  assigns go. The description is optional: the JSON object has \<open>name\<close> always and
  \<open>description\<close> only when the field is set, as \<open>null\<close> when it is set to a nil pointer.
\<close>

datatype json = JNull | JString string

definition ToMap :: "OstreeOstreeRepository \<Rightarrow> (string \<times> json) list" where
  "ToMap r =
     [(''name'', JString (Name r))] @
     (if IsSet (Description r)
      then [(''description'', (case Get (Description r) of None \<Rightarrow> JNull | Some s \<Rightarrow> JString s))]
      else [])"

section \<open>The world outside the wrapper\<close>

text \<open>
  \<open>Execute()\<close> of every SDK request returns the decoded result, the HTTP response and an
  error; each of the first two may be nil.
\<close>

type_synonym 'a executed = "'a option \<times> Response option \<times> error option"

datatype request =
    ArtifactsCreate APIClient Context File
  | RepositoriesOstreeOstreeList APIClient Context
  | RepositoriesOstreeOstreeCreate APIClient Context OstreeOstreeRepository
  | RepositoriesOstreeOstreeImportAll APIClient Context string OstreeImportAll
  | DistributionsOstreeOstreeCreate APIClient Context OstreeOstreeDistribution
  | TasksRead APIClient Context string

datatype effect = Remote request | Closed File | Logged string

text \<open>
  The file system and the server are inputs: \<open>os_Open\<close> answers \<open>os.Open\<close>, and one
  function per SDK endpoint answers \<open>Execute()\<close>. \<open>trace\<close> records, in order, what the
  wrapper did to the outside: the remote calls it issued, the files it closed and the
  lines it logged.
\<close>

record world =
  os_Open :: "string \<Rightarrow> error + File"
  ArtifactsCreateExecute :: "APIClient \<Rightarrow> Context \<Rightarrow> File \<Rightarrow> ArtifactResponse executed"
  OstreeListExecute ::
    "APIClient \<Rightarrow> Context \<Rightarrow> PaginatedostreeOstreeRepositoryResponseList executed"
  OstreeCreateExecute ::
    "APIClient \<Rightarrow> Context \<Rightarrow> OstreeOstreeRepository \<Rightarrow> OstreeOstreeRepositoryResponse executed"
  OstreeImportAllExecute ::
    "APIClient \<Rightarrow> Context \<Rightarrow> string \<Rightarrow> OstreeImportAll \<Rightarrow> AsyncOperationResponse executed"
  DistributionsCreateExecute ::
    "APIClient \<Rightarrow> Context \<Rightarrow> OstreeOstreeDistribution \<Rightarrow> AsyncOperationResponse executed"
  TasksReadExecute :: "APIClient \<Rightarrow> Context \<Rightarrow> string \<Rightarrow> TaskResponse executed"
  trace :: "effect list"

definition emit :: "effect list \<Rightarrow> world \<Rightarrow> world" where
  "emit es w = w\<lparr>trace := trace w @ es\<rparr>"

section \<open>The wrapper\<close>

definition NewClient :: "string \<Rightarrow> Credentials option \<Rightarrow> world \<Rightarrow> Client \<times> world" where
  "NewClient url creds w =
     (let ctx0 = WithValue Background ContextServerIndex (IntValue 0);
          transport = http_Transport;
          httpClient = \<lparr>Transport = transport\<rparr>;
          pulpConfig = \<lparr>HTTPClient = Some httpClient, Servers = [\<lparr>URL = url\<rparr>]\<rparr>;
          apiClient = NewAPIClient pulpConfig;
          ctx1 = (case creds of
                    None \<Rightarrow> ctx0
                  | Some c \<Rightarrow> WithValue ctx0 ContextBasicAuth
                      (BasicAuthValue \<lparr>UserName = Username c, BasicAuth_Password = Password c\<rparr>))
      in (\<lparr>client = apiClient, ctx = ctx1\<rparr>, w))"

definition readBody :: "Response option \<Rightarrow> string" where
  "readBody r =
     (case r of
        None \<Rightarrow> ''''
      | Some resp \<Rightarrow> (case Body resp of Inl err \<Rightarrow> '''' | Inr b \<Rightarrow> b))"

text \<open>
  The messages are built by \<open>fmt.Errorf\<close>: the verb \<open>%s\<close> inserts a string as it is.
  \<open>quote\<close> stands for the verb \<open>%q\<close> (\<open>strconv.Quote\<close> of the Go library), the one
  formatting step that is not plain concatenation; it is a parameter of \<open>UploadFile\<close>.
\<close>

definition UploadFile ::
  "(string \<Rightarrow> string) \<Rightarrow> Client \<Rightarrow> string \<Rightarrow> world \<Rightarrow> (error + string) \<times> world" where
  "UploadFile quote cl path w =
     (case os_Open w path of
        Inl err \<Rightarrow> (Inl err, w)
      | Inr fp \<Rightarrow>
          (case ArtifactsCreateExecute w (client cl) (ctx cl) fp of
             (res, resp, err) \<Rightarrow>
               (let w' = emit [Remote (ArtifactsCreate (client cl) (ctx cl) fp), Closed fp] w in
                case err of
                  Some e \<Rightarrow>
                    (Inl (ErrorString (''failed to upload file '' @ quote path @ '': '' @ Error e
                                        @ '' ('' @ readBody resp @ '')'')), w')
                | None \<Rightarrow> (Inr (ArtifactResponse_GetPulpHref res), w'))))"

text \<open>
  \<open>make(map[string]string, n)\<close>: an empty map; \<open>n\<close> is only a capacity hint.
\<close>

definition make_map :: "int \<Rightarrow> (string \<rightharpoonup> string)" where
  "make_map n = Map.empty"

fun range_repos ::
  "OstreeOstreeRepositoryResponse list \<Rightarrow> (string \<rightharpoonup> string) \<Rightarrow> (string \<rightharpoonup> string)" where
  "range_repos [] repos = repos"
| "range_repos (repo # rest) repos =
     range_repos rest (repos(repository_Name repo \<mapsto> Repository_GetPulpHref (Some repo)))"

definition ListOSTreeRepositories ::
  "Client \<Rightarrow> world \<Rightarrow> (error + (string \<rightharpoonup> string)) \<times> world" where
  "ListOSTreeRepositories cl w =
     (case OstreeListExecute w (client cl) (ctx cl) of
        (list, resp, err) \<Rightarrow>
          (let w' = emit [Remote (RepositoriesOstreeOstreeList (client cl) (ctx cl))] w in
           case err of
             Some e \<Rightarrow>
               (Inl (ErrorString (''repository list request returned an error: '' @ Error e
                                   @ '' ('' @ readBody resp @ '')'')), w')
           | None \<Rightarrow>
               (let repos = make_map (GetCount list)
                in (Inr (range_repos (GetResults list) repos), w'))))"

definition CreateOSTreeRepository ::
  "Client \<Rightarrow> string \<Rightarrow> string \<Rightarrow> world \<Rightarrow> (error + string) \<times> world" where
  "CreateOSTreeRepository cl name description w =
     (let repo0 = \<lparr>Name = name, Description = NullableString_zero\<rparr>;
          repo = (if description \<noteq> ''''
                  then repo0\<lparr>Description := NewNullableString (Some description)\<rparr>
                  else repo0)
      in case OstreeCreateExecute w (client cl) (ctx cl) repo of
           (result, resp, err) \<Rightarrow>
             (let w' = emit [Remote (RepositoriesOstreeOstreeCreate (client cl) (ctx cl) repo)] w in
              case err of
                Some e \<Rightarrow>
                  (Inl (ErrorString (''repository creation failed: '' @ Error e
                                      @ '' ('' @ readBody resp @ '')'')), w')
              | None \<Rightarrow> (Inr (Repository_GetPulpHref result), w')))"

text \<open>
  \<open>ImportCommit\<close> and \<open>DistributeOSTreeRepo\<close> read the field \<open>Task\<close> through the result
  pointer: on a nil result with a nil error the Go code panics, which is the outcome
  \<open>None\<close> here.
\<close>

definition ImportCommit ::
  "Client \<Rightarrow> string \<Rightarrow> string \<Rightarrow> world \<Rightarrow> (error + string) option \<times> world" where
  "ImportCommit cl commitHref repoHref w =
     (let importOptions = NewOstreeImportAll commitHref ''repo'' in
      case OstreeImportAllExecute w (client cl) (ctx cl) repoHref importOptions of
        (result, resp, err) \<Rightarrow>
          (let w' = emit [Remote (RepositoriesOstreeOstreeImportAll (client cl) (ctx cl)
                                    repoHref importOptions)] w in
           case err of
             Some e \<Rightarrow>
               (Some (Inl (ErrorString (''ostree commit import failed: '' @ Error e
                                         @ '' ('' @ readBody resp @ '')''))), w')
           | None \<Rightarrow> (case result of None \<Rightarrow> (None, w') | Some r \<Rightarrow> (Some (Inr (Task r)), w'))))"

definition DistributeOSTreeRepo ::
  "Client \<Rightarrow> string \<Rightarrow> string \<Rightarrow> string \<Rightarrow> world \<Rightarrow> (error + string) option \<times> world" where
  "DistributeOSTreeRepo cl basePath name repoHref w =
     (let dist = SetRepository repoHref (NewOstreeOstreeDistribution basePath name) in
      case DistributionsCreateExecute w (client cl) (ctx cl) dist of
        (res, resp, err) \<Rightarrow>
          (let w' = emit [Remote (DistributionsOstreeOstreeCreate (client cl) (ctx cl) dist)] w in
           case err of
             Some e \<Rightarrow>
               (Some (Inl (ErrorString (''error distributing ostree repository: '' @ Error e
                                         @ '' ('' @ readBody resp @ '')''))), w')
           | None \<Rightarrow> (case res of None \<Rightarrow> (None, w') | Some r \<Rightarrow> (Some (Inr (Task r)), w'))))"

subsection \<open>Task states\<close>

datatype TaskState = TaskState string

definition TASK_WAITING :: TaskState where "TASK_WAITING = TaskState ''waiting''"
definition TASK_SKIPPED :: TaskState where "TASK_SKIPPED = TaskState ''skipped''"
definition TASK_RUNNING :: TaskState where "TASK_RUNNING = TaskState ''running''"
definition TASK_COMPLETED :: TaskState where "TASK_COMPLETED = TaskState ''completed''"
definition TASK_FAILED :: TaskState where "TASK_FAILED = TaskState ''failed''"
definition TASK_CANCELED :: TaskState where "TASK_CANCELED = TaskState ''canceled''"
definition TASK_CANCELING :: TaskState where "TASK_CANCELING = TaskState ''canceling''"

definition Client_TaskState :: "Client \<Rightarrow> string \<Rightarrow> world \<Rightarrow> (error + TaskState) \<times> world" where
  "Client_TaskState cl task w =
     (case TasksReadExecute w (client cl) (ctx cl) task of
        (res, resp, err) \<Rightarrow>
          (let w' = emit [Remote (TasksRead (client cl) (ctx cl) task)] w in
           case err of
             Some e \<Rightarrow>
               (Inl (ErrorString (''error reading task '' @ task @ '': '' @ Error e
                                   @ '' ('' @ readBody resp @ '')'')), w')
           | None \<Rightarrow>
               (let state = GetState res in
                if state = ''''
                then (Inl (ErrorString (''got empty task state for '' @ task)), w')
                else (Inr (TaskState state), w'))))"

definition TaskWaitingOrRunning :: "Client \<Rightarrow> string \<Rightarrow> world \<Rightarrow> bool \<times> world" where
  "TaskWaitingOrRunning cl task w =
     (case Client_TaskState cl task w of
        (Inl err, w') \<Rightarrow> (False, emit [Logged (''failed to get task state: '' @ Error err)] w')
      | (Inr state, w') \<Rightarrow> (state = TASK_RUNNING \<or> state = TASK_WAITING, w'))"

section \<open>Sample worlds\<close>

text \<open>
  Concrete inputs on which the theorems below are exercised. \<open>offline\<close> has no files and
  no reachable server: every \<open>Execute()\<close> fails without a response.
\<close>

definition refused :: error where
  "refused = ErrorString ''connection refused''"

definition offline :: world where
  "offline =
     \<lparr>os_Open = (\<lambda>path. Inl (PathError ''open'' path ''no such file or directory'')),
      ArtifactsCreateExecute = (\<lambda>c x fp. (None, None, Some refused)),
      OstreeListExecute = (\<lambda>c x. (None, None, Some refused)),
      OstreeCreateExecute = (\<lambda>c x r. (None, None, Some refused)),
      OstreeImportAllExecute = (\<lambda>c x h i. (None, None, Some refused)),
      DistributionsCreateExecute = (\<lambda>c x d. (None, None, Some refused)),
      TasksReadExecute = (\<lambda>c x t. (None, None, Some refused)),
      trace = []\<rparr>"

definition admin :: Client where
  "admin = fst (NewClient ''https://pulp.example.com''
                  (Some \<lparr>Username = ''admin'', Password = ''secret''\<rparr>) offline)"

definition ok200 :: Response where
  "ok200 = \<lparr>StatusCode = 200, Body = Inr ''{}''\<rparr>"

definition broken500 :: Response where
  "broken500 = \<lparr>StatusCode = 500, Body = Inl (ErrorString ''unexpected EOF'')\<rparr>"

definition denied403 :: Response where
  "denied403 = \<lparr>StatusCode = 403, Body = Inr ''permission denied''\<rparr>"

definition forbidden :: error where
  "forbidden = ErrorString ''403 Forbidden''"

text \<open>A task endpoint that answers every read with the given state string.\<close>

definition task_in :: "string \<Rightarrow> world" where
  "task_in s = offline\<lparr>TasksReadExecute := (\<lambda>c x t. (Some \<lparr>State = Some s\<rparr>, Some ok200, None))\<rparr>"

text \<open>A task endpoint that answers with a task whose state field is missing.\<close>

definition task_stateless :: world where
  "task_stateless = offline\<lparr>TasksReadExecute := (\<lambda>c x t. (Some \<lparr>State = None\<rparr>, Some ok200, None))\<rparr>"

text \<open>What \<open>%q\<close> prints for a string with nothing to escape: the string in double quotes.\<close>

definition plain_quote :: "string \<Rightarrow> string" where
  "plain_quote s = [CHR 0x22] @ s @ [CHR 0x22]"

text \<open>A file system holding one tarball, and a server answering the upload as given.\<close>

definition with_tarball :: "ArtifactResponse executed \<Rightarrow> world" where
  "with_tarball answer =
     offline\<lparr>os_Open := (\<lambda>path. if path = ''/tmp/commit.tar'' then Inr (File path)
                                 else Inl (PathError ''open'' path ''no such file or directory'')),
             ArtifactsCreateExecute := (\<lambda>c x fp. answer)\<rparr>"

definition fedora_repos :: "OstreeOstreeRepositoryResponse list" where
  "fedora_repos =
     [\<lparr>repository_PulpHref = Some ''/pulp/api/v3/repositories/ostree/ostree/1/'',
       repository_Name = ''fedora-40''\<rparr>,
      \<lparr>repository_PulpHref = Some ''/pulp/api/v3/repositories/ostree/ostree/2/'',
       repository_Name = ''fedora-41''\<rparr>]"

definition listing :: world where
  "listing = offline\<lparr>OstreeListExecute :=
     (\<lambda>c x. (Some \<lparr>Count = 2, Results = fedora_repos\<rparr>, Some ok200, None))\<rparr>"

section \<open>Basic facts\<close>

lemmas TASK_defs =
  TASK_WAITING_def TASK_SKIPPED_def TASK_RUNNING_def TASK_COMPLETED_def
  TASK_FAILED_def TASK_CANCELED_def TASK_CANCELING_def

lemma trace_emit [simp]: "trace (emit es w) = trace w @ es"
  by (simp add: emit_def)

lemma TaskState_failed:
  assumes "TasksReadExecute w (client cl) (ctx cl) task = (res, resp, Some e)"
  shows "Client_TaskState cl task w =
           (Inl (ErrorString (''error reading task '' @ task @ '': '' @ Error e
                               @ '' ('' @ readBody resp @ '')'')),
            emit [Remote (TasksRead (client cl) (ctx cl) task)] w)"
  using assms by (simp add: Client_TaskState_def)

lemma TaskState_empty:
  assumes "TasksReadExecute w (client cl) (ctx cl) task = (res, resp, None)"
    and "GetState res = ''''"
  shows "Client_TaskState cl task w =
           (Inl (ErrorString (''got empty task state for '' @ task)),
            emit [Remote (TasksRead (client cl) (ctx cl) task)] w)"
  using assms by (simp add: Client_TaskState_def)

lemma TaskState_nonempty:
  assumes "TasksReadExecute w (client cl) (ctx cl) task = (res, resp, None)"
    and "GetState res \<noteq> ''''"
  shows "Client_TaskState cl task w =
           (Inr (TaskState (GetState res)),
            emit [Remote (TasksRead (client cl) (ctx cl) task)] w)"
  using assms by (simp add: Client_TaskState_def)

lemma TasksRead_task_in [simp]:
  "TasksReadExecute (task_in s) c x t = (Some \<lparr>State = Some s\<rparr>, Some ok200, None)"
  by (simp add: task_in_def)

lemma TasksRead_task_stateless [simp]:
  "TasksReadExecute task_stateless c x t = (Some \<lparr>State = None\<rparr>, Some ok200, None)"
  by (simp add: task_stateless_def)

lemma TasksRead_offline [simp]:
  "TasksReadExecute offline c x t = (None, None, Some refused)"
  by (simp add: offline_def)

lemma GetState_Some [simp]: "GetState (Some \<lparr>State = Some s\<rparr>) = s"
  by (simp add: GetState_def)

lemma GetState_missing [simp]: "GetState (Some \<lparr>State = None\<rparr>) = ''''"
  by (simp add: GetState_def)

lemma GetState_nil [simp]: "GetState None = ''''"
  by (simp add: GetState_def)

section \<open>Reading the state of a task\<close>

text \<open>
  Claim C10. Whatever non-empty state string the server returns, also one outside the
  seven known states, \<open>TaskState\<close> returns it unchanged, converted to the type
  \<open>TaskState\<close>, and returns no error: there is no membership check.
\<close>

theorem TaskState_returns_any_nonempty_state:
  assumes "TasksReadExecute w (client cl) (ctx cl) task = (res, resp, None)"
    and "GetState res = s"
    and "s \<noteq> ''''"
  shows "fst (Client_TaskState cl task w) = Inr (TaskState s)"
  using assms by (simp add: TaskState_nonempty)

theorem TaskState_returns_any_nonempty_state_witness:
  "fst (Client_TaskState admin ''/pulp/api/v3/tasks/7/'' (task_in ''paused'')) = Inr (TaskState ''paused'')
   \<and> TaskState ''paused'' \<notin> {TASK_WAITING, TASK_SKIPPED, TASK_RUNNING, TASK_COMPLETED,
                                TASK_FAILED, TASK_CANCELED, TASK_CANCELING}"
  using TaskState_returns_any_nonempty_state
          [of "task_in ''paused''" admin "''/pulp/api/v3/tasks/7/''"
              "Some \<lparr>State = Some ''paused''\<rparr>" "Some ok200" "''paused''"]
  by (simp add: TASK_defs)

text \<open>
  Claim C1, as the code has it. \<open>TaskState\<close> fails with the wrapped remote error when the
  read fails, fails with the empty-state error exactly when the state string of the
  response is empty (a nil result or a missing field read as the empty string), and
  otherwise returns the string converted to \<open>TaskState\<close>, whether it is one of the seven
  known states or not. The seven constants are the conversions of the seven known
  strings and are pairwise distinct.
\<close>

theorem TaskState_outcomes:
  "(TasksReadExecute w (client cl) (ctx cl) task = (res, resp, Some e) \<longrightarrow>
      fst (Client_TaskState cl task w) =
        Inl (ErrorString (''error reading task '' @ task @ '': '' @ Error e
                           @ '' ('' @ readBody resp @ '')'')))
   \<and> (TasksReadExecute w (client cl) (ctx cl) task = (res, resp, None) \<and> GetState res = '''' \<longrightarrow>
      fst (Client_TaskState cl task w) = Inl (ErrorString (''got empty task state for '' @ task)))
   \<and> (TasksReadExecute w (client cl) (ctx cl) task = (res, resp, None) \<and> GetState res \<noteq> '''' \<longrightarrow>
      fst (Client_TaskState cl task w) = Inr (TaskState (GetState res)))
   \<and> [TaskState ''waiting'', TaskState ''skipped'', TaskState ''running'',
       TaskState ''completed'', TaskState ''failed'', TaskState ''canceled'',
       TaskState ''canceling'']
      = [TASK_WAITING, TASK_SKIPPED, TASK_RUNNING, TASK_COMPLETED, TASK_FAILED,
         TASK_CANCELED, TASK_CANCELING]
   \<and> distinct [TASK_WAITING, TASK_SKIPPED, TASK_RUNNING, TASK_COMPLETED, TASK_FAILED,
               TASK_CANCELED, TASK_CANCELING]"
proof (intro conjI impI)
  assume "TasksReadExecute w (client cl) (ctx cl) task = (res, resp, Some e)"
  then show "fst (Client_TaskState cl task w) =
      Inl (ErrorString (''error reading task '' @ task @ '': '' @ Error e
                         @ '' ('' @ readBody resp @ '')''))"
    by (simp add: TaskState_failed)
next
  assume "TasksReadExecute w (client cl) (ctx cl) task = (res, resp, None) \<and> GetState res = ''''"
  then show "fst (Client_TaskState cl task w) =
      Inl (ErrorString (''got empty task state for '' @ task))"
    by (simp add: TaskState_empty)
next
  assume "TasksReadExecute w (client cl) (ctx cl) task = (res, resp, None) \<and> GetState res \<noteq> ''''"
  then show "fst (Client_TaskState cl task w) = Inr (TaskState (GetState res))"
    by (simp add: TaskState_nonempty)
next
  show "[TaskState ''waiting'', TaskState ''skipped'', TaskState ''running'',
         TaskState ''completed'', TaskState ''failed'', TaskState ''canceled'',
         TaskState ''canceling'']
        = [TASK_WAITING, TASK_SKIPPED, TASK_RUNNING, TASK_COMPLETED, TASK_FAILED,
           TASK_CANCELED, TASK_CANCELING]"
    by (simp add: TASK_defs)
next
  show "distinct [TASK_WAITING, TASK_SKIPPED, TASK_RUNNING, TASK_COMPLETED, TASK_FAILED,
                  TASK_CANCELED, TASK_CANCELING]"
    by (simp add: TASK_defs)
qed

theorem TaskState_outcomes_witness:
  "fst (Client_TaskState admin ''/pulp/api/v3/tasks/1/'' offline) =
     Inl (ErrorString ''error reading task /pulp/api/v3/tasks/1/: connection refused ()'')
   \<and> fst (Client_TaskState admin ''/pulp/api/v3/tasks/1/'' task_stateless) =
     Inl (ErrorString ''got empty task state for /pulp/api/v3/tasks/1/'')
   \<and> fst (Client_TaskState admin ''/pulp/api/v3/tasks/1/'' (task_in ''completed'')) =
     Inr TASK_COMPLETED"
proof (intro conjI)
  have "TasksReadExecute offline (client admin) (ctx admin) ''/pulp/api/v3/tasks/1/''
          = (None, None, Some refused)"
    by simp
  with TaskState_outcomes [of offline admin "''/pulp/api/v3/tasks/1/''" None None refused]
  have "fst (Client_TaskState admin ''/pulp/api/v3/tasks/1/'' offline) =
          Inl (ErrorString (''error reading task '' @ ''/pulp/api/v3/tasks/1/'' @ '': ''
                             @ Error refused @ '' ('' @ readBody None @ '')''))"
    by blast
  then show "fst (Client_TaskState admin ''/pulp/api/v3/tasks/1/'' offline) =
      Inl (ErrorString ''error reading task /pulp/api/v3/tasks/1/: connection refused ()'')"
    by (simp add: readBody_def refused_def)
next
  have "TasksReadExecute task_stateless (client admin) (ctx admin) ''/pulp/api/v3/tasks/1/''
          = (Some \<lparr>State = None\<rparr>, Some ok200, None)
        \<and> GetState (Some \<lparr>State = None\<rparr>) = ''''"
    by simp
  with TaskState_outcomes [of task_stateless admin "''/pulp/api/v3/tasks/1/''"
                              "Some \<lparr>State = None\<rparr>" "Some ok200" refused]
  have "fst (Client_TaskState admin ''/pulp/api/v3/tasks/1/'' task_stateless) =
          Inl (ErrorString (''got empty task state for '' @ ''/pulp/api/v3/tasks/1/''))"
    by blast
  then show "fst (Client_TaskState admin ''/pulp/api/v3/tasks/1/'' task_stateless) =
      Inl (ErrorString ''got empty task state for /pulp/api/v3/tasks/1/'')"
    by simp
next
  have "TasksReadExecute (task_in ''completed'') (client admin) (ctx admin) ''/pulp/api/v3/tasks/1/''
          = (Some \<lparr>State = Some ''completed''\<rparr>, Some ok200, None)
        \<and> GetState (Some \<lparr>State = Some ''completed''\<rparr>) \<noteq> ''''"
    by simp
  with TaskState_outcomes [of "task_in ''completed''" admin "''/pulp/api/v3/tasks/1/''"
                              "Some \<lparr>State = Some ''completed''\<rparr>" "Some ok200" refused]
  have "fst (Client_TaskState admin ''/pulp/api/v3/tasks/1/'' (task_in ''completed'')) =
          Inr (TaskState (GetState (Some \<lparr>State = Some ''completed''\<rparr>)))"
    by blast
  then show "fst (Client_TaskState admin ''/pulp/api/v3/tasks/1/'' (task_in ''completed'')) =
      Inr TASK_COMPLETED"
    by (simp add: TASK_COMPLETED_def)
qed

text \<open>
  The claim as worded fails on an unrecognised state: the server answers \<open>bogus\<close>, which
  is none of the seven known strings, and \<open>TaskState\<close> returns it instead of failing.
\<close>

theorem TaskState_unrecognized_counterexample:
  "GetState (Some \<lparr>State = Some ''bogus''\<rparr>) \<notin>
     {''waiting'', ''skipped'', ''running'', ''completed'', ''failed'', ''canceled'', ''canceling''}
   \<and> TasksReadExecute (task_in ''bogus'') (client admin) (ctx admin) ''/pulp/api/v3/tasks/1/''
       = (Some \<lparr>State = Some ''bogus''\<rparr>, Some ok200, None)
   \<and> fst (Client_TaskState admin ''/pulp/api/v3/tasks/1/'' (task_in ''bogus'')) =
       Inr (TaskState ''bogus'')"
  by (simp add: Client_TaskState_def)

section \<open>Polling\<close>

lemma TaskWaitingOrRunning_error:
  "Client_TaskState cl task w = (Inl e, w') \<Longrightarrow>
     TaskWaitingOrRunning cl task w =
       (False, emit [Logged (''failed to get task state: '' @ Error e)] w')"
  by (simp add: TaskWaitingOrRunning_def)

lemma TaskWaitingOrRunning_state:
  "Client_TaskState cl task w = (Inr s, w') \<Longrightarrow>
     TaskWaitingOrRunning cl task w = (s = TASK_RUNNING \<or> s = TASK_WAITING, w')"
  by (simp add: TaskWaitingOrRunning_def)

text \<open>
  Claim C2. \<open>TaskWaitingOrRunning\<close> returns a plain boolean: true exactly when the state
  query succeeds with the state waiting or running, false for each of the five other
  known states, and false when the query fails, in which case the error is only logged.
\<close>

theorem TaskWaitingOrRunning_iff:
  "(fst (TaskWaitingOrRunning cl task w) \<longleftrightarrow>
      fst (Client_TaskState cl task w) \<in> {Inr TASK_WAITING, Inr TASK_RUNNING})
   \<and> (fst (Client_TaskState cl task w) \<in>
        {Inr TASK_SKIPPED, Inr TASK_COMPLETED, Inr TASK_FAILED, Inr TASK_CANCELED,
         Inr TASK_CANCELING} \<longrightarrow> \<not> fst (TaskWaitingOrRunning cl task w))
   \<and> (\<forall>e. fst (Client_TaskState cl task w) = Inl e \<longrightarrow>
        \<not> fst (TaskWaitingOrRunning cl task w)
        \<and> trace (snd (TaskWaitingOrRunning cl task w)) =
            trace (snd (Client_TaskState cl task w))
            @ [Logged (''failed to get task state: '' @ Error e)])"
proof -
  obtain r w' where run: "Client_TaskState cl task w = (r, w')"
    by (cases "Client_TaskState cl task w")
  show ?thesis
  proof (cases r)
    case (Inl e)
    with run show ?thesis
      by (simp add: TaskWaitingOrRunning_error)
  next
    case (Inr s)
    with run show ?thesis
      by (auto simp add: TaskWaitingOrRunning_state TASK_defs)
  qed
qed

theorem TaskWaitingOrRunning_iff_witness:
  "fst (TaskWaitingOrRunning admin ''/pulp/api/v3/tasks/1/'' (task_in ''waiting''))
   \<and> fst (TaskWaitingOrRunning admin ''/pulp/api/v3/tasks/1/'' (task_in ''running''))
   \<and> \<not> fst (TaskWaitingOrRunning admin ''/pulp/api/v3/tasks/1/'' (task_in ''canceling''))
   \<and> \<not> fst (TaskWaitingOrRunning admin ''/pulp/api/v3/tasks/1/'' offline)
   \<and> trace (snd (TaskWaitingOrRunning admin ''/pulp/api/v3/tasks/1/'' offline)) =
       [Remote (TasksRead (client admin) (ctx admin) ''/pulp/api/v3/tasks/1/''),
        Logged ''failed to get task state: error reading task /pulp/api/v3/tasks/1/: connection refused ()'']"
  using TaskWaitingOrRunning_iff [of admin "''/pulp/api/v3/tasks/1/''" "task_in ''waiting''"]
        TaskWaitingOrRunning_iff [of admin "''/pulp/api/v3/tasks/1/''" "task_in ''running''"]
        TaskWaitingOrRunning_iff [of admin "''/pulp/api/v3/tasks/1/''" "task_in ''canceling''"]
        TaskWaitingOrRunning_iff [of admin "''/pulp/api/v3/tasks/1/''" offline]
  by (simp add: Client_TaskState_def TASK_defs readBody_def refused_def offline_def)

section \<open>Construction\<close>

text \<open>
  Claim C9. \<open>NewClient\<close> returns a client for every URL and every optional credentials
  value, and leaves the world as it found it: it opens no file, issues no remote call
  and logs nothing. The configuration holds exactly one server, the given URL, and the
  request context selects server index 0. The context carries basic-auth data, the
  user name and password of the credentials, exactly when credentials are given.
\<close>

theorem NewClient_configuration:
  "snd (NewClient url creds w) = w
   \<and> Servers (cfg (client (fst (NewClient url creds w)))) = [\<lparr>URL = url\<rparr>]
   \<and> length (Servers (cfg (client (fst (NewClient url creds w))))) = 1
   \<and> Value (ctx (fst (NewClient url creds w))) ContextServerIndex = Some (IntValue 0)
   \<and> Value (ctx (fst (NewClient url creds w))) ContextBasicAuth =
       (case creds of
          None \<Rightarrow> None
        | Some c \<Rightarrow> Some (BasicAuthValue \<lparr>UserName = Username c, BasicAuth_Password = Password c\<rparr>))"
  by (cases creds)
     (simp_all add: NewClient_def NewAPIClient_def WithValue_def Background_def Value_def)

section \<open>Requests\<close>

text \<open>
  Claim C3. \<open>ImportCommit\<close> issues exactly one remote call, the import into the given
  repository, and the repository name in its payload is the constant \<open>repo\<close> whatever
  the commit href and the repository href are.
\<close>

theorem ImportCommit_archive_name:
  "\<exists>payload.
     trace (snd (ImportCommit cl commitHref repoHref w)) =
       trace w @ [Remote (RepositoriesOstreeOstreeImportAll (client cl) (ctx cl) repoHref payload)]
     \<and> RepositoryName payload = ''repo''
     \<and> Artifact payload = commitHref"
proof -
  obtain result resp err
    where exec: "OstreeImportAllExecute w (client cl) (ctx cl) repoHref
                   (NewOstreeImportAll commitHref ''repo'') = (result, resp, err)"
    by (cases "OstreeImportAllExecute w (client cl) (ctx cl) repoHref
                 (NewOstreeImportAll commitHref ''repo'')")
  have "trace (snd (ImportCommit cl commitHref repoHref w)) =
          trace w @ [Remote (RepositoriesOstreeOstreeImportAll (client cl) (ctx cl) repoHref
                               (NewOstreeImportAll commitHref ''repo''))]"
    using exec by (simp add: ImportCommit_def Let_def split: option.split)
  moreover have "RepositoryName (NewOstreeImportAll commitHref ''repo'') = ''repo''"
    by (simp add: NewOstreeImportAll_def)
  moreover have "Artifact (NewOstreeImportAll commitHref ''repo'') = commitHref"
    by (simp add: NewOstreeImportAll_def)
  ultimately show ?thesis
    by blast
qed

lemma CreateOSTreeRepository_trace:
  "trace (snd (CreateOSTreeRepository cl name description w)) =
     trace w @ [Remote (RepositoriesOstreeOstreeCreate (client cl) (ctx cl)
                          \<lparr>Name = name,
                           Description = (if description \<noteq> '''' then NewNullableString (Some description)
                                          else NullableString_zero)\<rparr>)]"
proof (cases "description = ''''")
  case True
  obtain result resp err
    where "OstreeCreateExecute w (client cl) (ctx cl)
             \<lparr>Name = name, Description = NullableString_zero\<rparr> = (result, resp, err)"
    by (cases "OstreeCreateExecute w (client cl) (ctx cl)
                 \<lparr>Name = name, Description = NullableString_zero\<rparr>")
  with True show ?thesis
    by (simp add: CreateOSTreeRepository_def Let_def split: option.split)
next
  case False
  obtain result resp err
    where "OstreeCreateExecute w (client cl) (ctx cl)
             \<lparr>Name = name, Description = NewNullableString (Some description)\<rparr>
           = (result, resp, err)"
    by (cases "OstreeCreateExecute w (client cl) (ctx cl)
                 \<lparr>Name = name, Description = NewNullableString (Some description)\<rparr>")
  with False show ?thesis
    by (simp add: CreateOSTreeRepository_def Let_def split: option.split)
qed

text \<open>
  Claim C5. Creating a repository with the empty description sends a payload whose
  description is left unset, the value a repository built from the name alone has: the
  JSON object has the name and no description key, neither an empty string nor null.
  With a non-empty description the field is set to that string and serialised as such.
\<close>

theorem CreateOSTreeRepository_description:
  "trace (snd (CreateOSTreeRepository cl name '''' w)) =
     trace w @ [Remote (RepositoriesOstreeOstreeCreate (client cl) (ctx cl)
                          \<lparr>Name = name, Description = NullableString_zero\<rparr>)]
   \<and> \<not> IsSet NullableString_zero
   \<and> ToMap \<lparr>Name = name, Description = NullableString_zero\<rparr> = [(''name'', JString name)]
   \<and> (description \<noteq> '''' \<longrightarrow>
        trace (snd (CreateOSTreeRepository cl name description w)) =
          trace w @ [Remote (RepositoriesOstreeOstreeCreate (client cl) (ctx cl)
                               \<lparr>Name = name, Description = NullableString (Some description) True\<rparr>)]
        \<and> ToMap \<lparr>Name = name, Description = NullableString (Some description) True\<rparr> =
            [(''name'', JString name), (''description'', JString description)])"
  by (simp add: CreateOSTreeRepository_trace NullableString_zero_def NewNullableString_def
        ToMap_def)

theorem CreateOSTreeRepository_description_witness:
  "trace (snd (CreateOSTreeRepository admin ''fedora-40'' ''Fedora 40 commits'' offline)) =
     [Remote (RepositoriesOstreeOstreeCreate (client admin) (ctx admin)
                \<lparr>Name = ''fedora-40'',
                 Description = NullableString (Some ''Fedora 40 commits'') True\<rparr>)]
   \<and> map fst (ToMap \<lparr>Name = ''fedora-40'',
                      Description = NullableString (Some ''Fedora 40 commits'') True\<rparr>)
       = [''name'', ''description'']
   \<and> trace (snd (CreateOSTreeRepository admin ''fedora-40'' '''' offline)) =
       [Remote (RepositoriesOstreeOstreeCreate (client admin) (ctx admin)
                  \<lparr>Name = ''fedora-40'', Description = NullableString None False\<rparr>)]
   \<and> map fst (ToMap \<lparr>Name = ''fedora-40'', Description = NullableString None False\<rparr>) = [''name'']"
proof -
  have nonempty: "''Fedora 40 commits'' \<noteq> ''''"
    by simp
  have empty_trace: "trace offline = []"
    by (simp add: offline_def)
  from CreateOSTreeRepository_description
         [of admin "''fedora-40''" offline "''Fedora 40 commits''"] nonempty empty_trace
  show ?thesis
    by (simp add: NullableString_zero_def)
qed

section \<open>Upload\<close>

lemma UploadFile_no_file:
  "os_Open w path = Inl e \<Longrightarrow> UploadFile quote cl path w = (Inl e, w)"
  by (simp add: UploadFile_def)

lemma UploadFile_rejected:
  assumes "os_Open w path = Inr fp"
    and "ArtifactsCreateExecute w (client cl) (ctx cl) fp = (res, resp, Some e)"
  shows "UploadFile quote cl path w =
           (Inl (ErrorString (''failed to upload file '' @ quote path @ '': '' @ Error e
                               @ '' ('' @ readBody resp @ '')'')),
            emit [Remote (ArtifactsCreate (client cl) (ctx cl) fp), Closed fp] w)"
  using assms by (simp add: UploadFile_def)

lemma UploadFile_accepted:
  assumes "os_Open w path = Inr fp"
    and "ArtifactsCreateExecute w (client cl) (ctx cl) fp = (res, resp, None)"
  shows "UploadFile quote cl path w =
           (Inr (ArtifactResponse_GetPulpHref res),
            emit [Remote (ArtifactsCreate (client cl) (ctx cl) fp), Closed fp] w)"
  using assms by (simp add: UploadFile_def)

lemma os_Open_with_tarball [simp]:
  "os_Open (with_tarball answer) ''/tmp/commit.tar'' = Inr (File ''/tmp/commit.tar'')"
  by (simp add: with_tarball_def)

lemma ArtifactsCreateExecute_with_tarball [simp]:
  "ArtifactsCreateExecute (with_tarball answer) c x fp = answer"
  by (simp add: with_tarball_def)

lemma os_Open_offline [simp]:
  "os_Open offline path = Inl (PathError ''open'' path ''no such file or directory'')"
  by (simp add: offline_def)

text \<open>
  Claim C6. When the file cannot be opened, \<open>UploadFile\<close> returns the error of
  \<open>os.Open\<close> as it is and does nothing else: the world, and so the trace of remote
  calls, is unchanged. When the file opens and the server rejects the upload, the
  result is the wrapped error whose message ends with the response body in brackets.
  When the server accepts it, the result is the href of the response.
\<close>

theorem UploadFile_outcomes:
  "(os_Open w path = Inl e \<longrightarrow>
      UploadFile quote cl path w = (Inl e, w)
      \<and> trace (snd (UploadFile quote cl path w)) = trace w)
   \<and> (os_Open w path = Inr fp
       \<and> ArtifactsCreateExecute w (client cl) (ctx cl) fp = (res, resp, Some e') \<longrightarrow>
      fst (UploadFile quote cl path w) =
        Inl (ErrorString (''failed to upload file '' @ quote path @ '': '' @ Error e'
                           @ '' ('' @ readBody resp @ '')'')))
   \<and> (os_Open w path = Inr fp
       \<and> ArtifactsCreateExecute w (client cl) (ctx cl) fp = (res, resp, None) \<longrightarrow>
      fst (UploadFile quote cl path w) = Inr (ArtifactResponse_GetPulpHref res))"
  by (simp add: UploadFile_no_file UploadFile_rejected UploadFile_accepted)

theorem UploadFile_outcomes_witness:
  "UploadFile plain_quote admin ''/tmp/missing.tar'' offline =
     (Inl (PathError ''open'' ''/tmp/missing.tar'' ''no such file or directory''), offline)
   \<and> fst (UploadFile plain_quote admin ''/tmp/commit.tar''
            (with_tarball (None, Some denied403, Some forbidden))) =
       Inl (ErrorString (''failed to upload file '' @ plain_quote ''/tmp/commit.tar''
                          @ '': 403 Forbidden (permission denied)''))
   \<and> fst (UploadFile plain_quote admin ''/tmp/commit.tar''
            (with_tarball (Some \<lparr>artifact_PulpHref = Some ''/pulp/api/v3/artifacts/9/''\<rparr>,
                           Some ok200, None))) =
       Inr ''/pulp/api/v3/artifacts/9/''"
proof (intro conjI)
  have "os_Open offline ''/tmp/missing.tar'' =
          Inl (PathError ''open'' ''/tmp/missing.tar'' ''no such file or directory'')"
    by simp
  with UploadFile_outcomes
         [of offline "''/tmp/missing.tar''"
             "PathError ''open'' ''/tmp/missing.tar'' ''no such file or directory''"
             plain_quote admin "File ''/tmp/missing.tar''" None None refused]
  show "UploadFile plain_quote admin ''/tmp/missing.tar'' offline =
     (Inl (PathError ''open'' ''/tmp/missing.tar'' ''no such file or directory''), offline)"
    by blast
next
  let ?w = "with_tarball (None, Some denied403, Some forbidden)"
  have "os_Open ?w ''/tmp/commit.tar'' = Inr (File ''/tmp/commit.tar'')
        \<and> ArtifactsCreateExecute ?w (client admin) (ctx admin) (File ''/tmp/commit.tar'')
            = (None, Some denied403, Some forbidden)"
    by simp
  with UploadFile_outcomes
         [of ?w "''/tmp/commit.tar''" refused plain_quote admin "File ''/tmp/commit.tar''"
             None "Some denied403" forbidden]
  have "fst (UploadFile plain_quote admin ''/tmp/commit.tar'' ?w) =
          Inl (ErrorString (''failed to upload file '' @ plain_quote ''/tmp/commit.tar'' @ '': ''
                             @ Error forbidden @ '' ('' @ readBody (Some denied403) @ '')''))"
    by blast
  then show "fst (UploadFile plain_quote admin ''/tmp/commit.tar'' ?w) =
       Inl (ErrorString (''failed to upload file '' @ plain_quote ''/tmp/commit.tar''
                          @ '': 403 Forbidden (permission denied)''))"
    by (simp add: forbidden_def denied403_def readBody_def)
next
  let ?res = "Some \<lparr>artifact_PulpHref = Some ''/pulp/api/v3/artifacts/9/''\<rparr>"
  let ?w = "with_tarball (?res, Some ok200, None)"
  have "os_Open ?w ''/tmp/commit.tar'' = Inr (File ''/tmp/commit.tar'')
        \<and> ArtifactsCreateExecute ?w (client admin) (ctx admin) (File ''/tmp/commit.tar'')
            = (?res, Some ok200, None)"
    by simp
  with UploadFile_outcomes
         [of ?w "''/tmp/commit.tar''" refused plain_quote admin "File ''/tmp/commit.tar''"
             ?res "Some ok200" refused]
  have "fst (UploadFile plain_quote admin ''/tmp/commit.tar'' ?w) =
          Inr (ArtifactResponse_GetPulpHref ?res)"
    by blast
  then show "fst (UploadFile plain_quote admin ''/tmp/commit.tar'' ?w) =
       Inr ''/pulp/api/v3/artifacts/9/''"
    by (simp add: ArtifactResponse_GetPulpHref_def)
qed

text \<open>
  Claim C7, as the code has it. For a file that opens and a server response without
  error, \<open>UploadFile\<close> returns the href of the response as it is, with no check of its
  own: the result is the value of the getter on the response, which is the string in
  the field \<open>pulp_href\<close> whenever the response has one. So the href returned is
  non-empty exactly when the response carries a non-empty \<open>pulp_href\<close>.
\<close>

theorem UploadFile_href:
  assumes "os_Open w path = Inr fp"
    and "ArtifactsCreateExecute w (client cl) (ctx cl) fp = (res, resp, None)"
  shows "fst (UploadFile quote cl path w) = Inr (ArtifactResponse_GetPulpHref res)
         \<and> (\<forall>r h. res = Some r \<and> artifact_PulpHref r = Some h \<longrightarrow>
               fst (UploadFile quote cl path w) = Inr h)
         \<and> (ArtifactResponse_GetPulpHref res \<noteq> '''' \<longleftrightarrow>
               (\<exists>r h. res = Some r \<and> artifact_PulpHref r = Some h \<and> h \<noteq> ''''))"
proof (intro conjI allI impI)
  show returned: "fst (UploadFile quote cl path w) = Inr (ArtifactResponse_GetPulpHref res)"
    using assms by (simp add: UploadFile_accepted)
  fix r h
  assume "res = Some r \<and> artifact_PulpHref r = Some h"
  then have "ArtifactResponse_GetPulpHref res = h"
    by (simp add: ArtifactResponse_GetPulpHref_def)
  with returned show "fst (UploadFile quote cl path w) = Inr h"
    by simp
next
  show "ArtifactResponse_GetPulpHref res \<noteq> '''' \<longleftrightarrow>
          (\<exists>r h. res = Some r \<and> artifact_PulpHref r = Some h \<and> h \<noteq> '''')"
    by (auto simp add: ArtifactResponse_GetPulpHref_def split: option.splits)
qed

theorem UploadFile_href_witness:
  "fst (UploadFile plain_quote admin ''/tmp/commit.tar''
          (with_tarball (Some \<lparr>artifact_PulpHref = Some ''/pulp/api/v3/artifacts/3/''\<rparr>,
                         Some ok200, None))) = Inr ''/pulp/api/v3/artifacts/3/''
   \<and> ''/pulp/api/v3/artifacts/3/'' \<noteq> ''''"
proof -
  let ?r = "\<lparr>artifact_PulpHref = Some ''/pulp/api/v3/artifacts/3/''\<rparr>"
  let ?w = "with_tarball (Some ?r, Some ok200, None)"
  have opened: "os_Open ?w ''/tmp/commit.tar'' = Inr (File ''/tmp/commit.tar'')"
    by simp
  have answered: "ArtifactsCreateExecute ?w (client admin) (ctx admin) (File ''/tmp/commit.tar'')
                    = (Some ?r, Some ok200, None)"
    by simp
  have carried: "Some ?r = Some ?r \<and> artifact_PulpHref ?r = Some ''/pulp/api/v3/artifacts/3/''"
    by simp
  from UploadFile_href [OF opened answered, of plain_quote] carried
  have "fst (UploadFile plain_quote admin ''/tmp/commit.tar'' ?w) =
          Inr ''/pulp/api/v3/artifacts/3/''"
    by blast
  then show ?thesis
    by simp
qed

text \<open>
  The claim as worded fails on a successful response that carries no href: the file
  opens, the server answers without error, and the href returned is empty.
\<close>

theorem UploadFile_empty_href_counterexample:
  "os_Open (with_tarball (Some \<lparr>artifact_PulpHref = None\<rparr>, Some ok200, None)) ''/tmp/commit.tar''
     = Inr (File ''/tmp/commit.tar'')
   \<and> ArtifactsCreateExecute (with_tarball (Some \<lparr>artifact_PulpHref = None\<rparr>, Some ok200, None))
        (client admin) (ctx admin) (File ''/tmp/commit.tar'')
     = (Some \<lparr>artifact_PulpHref = None\<rparr>, Some ok200, None)
   \<and> fst (UploadFile plain_quote admin ''/tmp/commit.tar''
            (with_tarball (Some \<lparr>artifact_PulpHref = None\<rparr>, Some ok200, None))) = Inr ''''"
  by (simp add: UploadFile_def ArtifactResponse_GetPulpHref_def)

section \<open>Listing repositories\<close>

lemma range_repos_dom:
  "dom (range_repos rs repos) = dom repos \<union> repository_Name ` set rs"
  by (induction rs arbitrary: repos) auto

lemma range_repos_other:
  "name \<notin> repository_Name ` set rs \<Longrightarrow> range_repos rs repos name = repos name"
  by (induction rs arbitrary: repos) auto

lemma range_repos_lookup:
  assumes "distinct (map repository_Name rs)"
    and "r \<in> set rs"
  shows "range_repos rs repos (repository_Name r) = Some (Repository_GetPulpHref (Some r))"
  using assms
proof (induction rs arbitrary: repos)
  case Nil
  then show ?case by simp
next
  case (Cons a rs)
  show ?case
  proof (cases "r \<in> set rs")
    case True
    with Cons show ?thesis by simp
  next
    case False
    with Cons.prems have "r = a" and "repository_Name a \<notin> repository_Name ` set rs"
      by auto
    then show ?thesis
      by (simp add: range_repos_other)
  qed
qed

lemma range_repos_card:
  assumes "distinct (map repository_Name rs)"
  shows "card (dom (range_repos rs Map.empty)) = length rs"
proof -
  have "dom (range_repos rs Map.empty) = set (map repository_Name rs)"
    by (simp add: range_repos_dom)
  with assms show ?thesis
    by (simp only: distinct_card length_map)
qed

lemma ListOSTreeRepositories_failed:
  assumes "OstreeListExecute w (client cl) (ctx cl) = (list, resp, Some e)"
  shows "ListOSTreeRepositories cl w =
           (Inl (ErrorString (''repository list request returned an error: '' @ Error e
                               @ '' ('' @ readBody resp @ '')'')),
            emit [Remote (RepositoriesOstreeOstreeList (client cl) (ctx cl))] w)"
  using assms by (simp add: ListOSTreeRepositories_def)

lemma ListOSTreeRepositories_listed:
  assumes "OstreeListExecute w (client cl) (ctx cl) = (list, resp, None)"
  shows "ListOSTreeRepositories cl w =
           (Inr (range_repos (GetResults list) Map.empty),
            emit [Remote (RepositoriesOstreeOstreeList (client cl) (ctx cl))] w)"
  using assms by (simp add: ListOSTreeRepositories_def make_map_def)

lemma OstreeListExecute_listing [simp]:
  "OstreeListExecute listing c x = (Some \<lparr>Count = 2, Results = fedora_repos\<rparr>, Some ok200, None)"
  by (simp add: listing_def)

lemma OstreeListExecute_offline [simp]:
  "OstreeListExecute offline c x = (None, None, Some refused)"
  by (simp add: offline_def)

text \<open>
  Claim C4. When the list request succeeds with N repositories of pairwise distinct
  names, \<open>ListOSTreeRepositories\<close> returns a map with exactly N entries: its keys are the
  names of the repositories, and each name is mapped to the href of its repository.
  When the request fails, the result is the wrapped remote error and no map.
\<close>

theorem ListOSTreeRepositories_mapping:
  "(OstreeListExecute w (client cl) (ctx cl) = (list, resp, None)
    \<and> distinct (map repository_Name (GetResults list)) \<longrightarrow>
      (\<exists>repos. fst (ListOSTreeRepositories cl w) = Inr repos
         \<and> card (dom repos) = length (GetResults list)
         \<and> dom repos = repository_Name ` set (GetResults list)
         \<and> (\<forall>r \<in> set (GetResults list).
               repos (repository_Name r) = Some (Repository_GetPulpHref (Some r)))))
   \<and> (OstreeListExecute w (client cl) (ctx cl) = (list, resp, Some e) \<longrightarrow>
        fst (ListOSTreeRepositories cl w) =
          Inl (ErrorString (''repository list request returned an error: '' @ Error e
                             @ '' ('' @ readBody resp @ '')'')))"
proof (intro conjI impI)
  assume ok: "OstreeListExecute w (client cl) (ctx cl) = (list, resp, None)
              \<and> distinct (map repository_Name (GetResults list))"
  let ?repos = "range_repos (GetResults list) Map.empty"
  have "fst (ListOSTreeRepositories cl w) = Inr ?repos"
    using ok by (simp add: ListOSTreeRepositories_listed)
  moreover have "card (dom ?repos) = length (GetResults list)"
    using ok by (simp add: range_repos_card)
  moreover have "dom ?repos = repository_Name ` set (GetResults list)"
    by (simp add: range_repos_dom)
  moreover have "\<forall>r \<in> set (GetResults list).
                   ?repos (repository_Name r) = Some (Repository_GetPulpHref (Some r))"
    using ok by (simp add: range_repos_lookup)
  ultimately show "\<exists>repos. fst (ListOSTreeRepositories cl w) = Inr repos
         \<and> card (dom repos) = length (GetResults list)
         \<and> dom repos = repository_Name ` set (GetResults list)
         \<and> (\<forall>r \<in> set (GetResults list).
               repos (repository_Name r) = Some (Repository_GetPulpHref (Some r)))"
    by blast
next
  assume "OstreeListExecute w (client cl) (ctx cl) = (list, resp, Some e)"
  then show "fst (ListOSTreeRepositories cl w) =
          Inl (ErrorString (''repository list request returned an error: '' @ Error e
                             @ '' ('' @ readBody resp @ '')''))"
    by (simp add: ListOSTreeRepositories_failed)
qed

theorem ListOSTreeRepositories_mapping_witness:
  "(\<exists>repos. fst (ListOSTreeRepositories admin listing) = Inr repos
      \<and> card (dom repos) = 2
      \<and> dom repos = {''fedora-40'', ''fedora-41''}
      \<and> repos ''fedora-40'' = Some ''/pulp/api/v3/repositories/ostree/ostree/1/''
      \<and> repos ''fedora-41'' = Some ''/pulp/api/v3/repositories/ostree/ostree/2/'')
   \<and> fst (ListOSTreeRepositories admin offline) =
       Inl (ErrorString ''repository list request returned an error: connection refused ()'')"
proof (intro conjI)
  let ?list = "Some \<lparr>Count = 2, Results = fedora_repos\<rparr>"
  have "OstreeListExecute listing (client admin) (ctx admin) = (?list, Some ok200, None)
        \<and> distinct (map repository_Name (GetResults ?list))"
    by (simp add: GetResults_def fedora_repos_def)
  with ListOSTreeRepositories_mapping [of listing admin ?list "Some ok200" refused]
  obtain repos where r: "fst (ListOSTreeRepositories admin listing) = Inr repos"
    and c: "card (dom repos) = length (GetResults ?list)"
    and d: "dom repos = repository_Name ` set (GetResults ?list)"
    and l: "\<forall>r \<in> set (GetResults ?list).
              repos (repository_Name r) = Some (Repository_GetPulpHref (Some r))"
    by blast
  have "card (dom repos) = 2"
    using c by (simp add: GetResults_def fedora_repos_def)
  moreover have "dom repos = {''fedora-40'', ''fedora-41''}"
    using d by (simp add: GetResults_def fedora_repos_def)
  moreover have "repos ''fedora-40'' = Some ''/pulp/api/v3/repositories/ostree/ostree/1/''"
    using l by (simp add: GetResults_def fedora_repos_def Repository_GetPulpHref_def)
  moreover have "repos ''fedora-41'' = Some ''/pulp/api/v3/repositories/ostree/ostree/2/''"
    using l by (simp add: GetResults_def fedora_repos_def Repository_GetPulpHref_def)
  ultimately show "\<exists>repos. fst (ListOSTreeRepositories admin listing) = Inr repos
      \<and> card (dom repos) = 2
      \<and> dom repos = {''fedora-40'', ''fedora-41''}
      \<and> repos ''fedora-40'' = Some ''/pulp/api/v3/repositories/ostree/ostree/1/''
      \<and> repos ''fedora-41'' = Some ''/pulp/api/v3/repositories/ostree/ostree/2/''"
    using r by blast
next
  have "OstreeListExecute offline (client admin) (ctx admin) = (None, None, Some refused)"
    by simp
  with ListOSTreeRepositories_mapping [of offline admin None None refused]
  have "fst (ListOSTreeRepositories admin offline) =
          Inl (ErrorString (''repository list request returned an error: '' @ Error refused
                             @ '' ('' @ readBody None @ '')''))"
    by blast
  then show "fst (ListOSTreeRepositories admin offline) =
       Inl (ErrorString ''repository list request returned an error: connection refused ()'')"
    by (simp add: refused_def readBody_def)
qed

section \<open>Remote failures\<close>

lemma CreateOSTreeRepository_failed:
  assumes "OstreeCreateExecute w (client cl) (ctx cl)
             \<lparr>Name = name,
              Description = (if description \<noteq> '''' then NewNullableString (Some description)
                             else NullableString_zero)\<rparr> = (result, resp, Some e)"
  shows "fst (CreateOSTreeRepository cl name description w) =
           Inl (ErrorString (''repository creation failed: '' @ Error e
                              @ '' ('' @ readBody resp @ '')''))"
  using assms by (cases "description = ''''") (simp_all add: CreateOSTreeRepository_def Let_def)

lemma ImportCommit_failed:
  assumes "OstreeImportAllExecute w (client cl) (ctx cl) repoHref
             (NewOstreeImportAll commitHref ''repo'') = (result, resp, Some e)"
  shows "fst (ImportCommit cl commitHref repoHref w) =
           Some (Inl (ErrorString (''ostree commit import failed: '' @ Error e
                                    @ '' ('' @ readBody resp @ '')'')))"
  using assms by (simp add: ImportCommit_def Let_def)

lemma DistributeOSTreeRepo_failed:
  assumes "DistributionsCreateExecute w (client cl) (ctx cl)
             (SetRepository repoHref (NewOstreeOstreeDistribution basePath name))
           = (res, resp, Some e)"
  shows "fst (DistributeOSTreeRepo cl basePath name repoHref w) =
           Some (Inl (ErrorString (''error distributing ostree repository: '' @ Error e
                                    @ '' ('' @ readBody resp @ '')'')))"
  using assms by (simp add: DistributeOSTreeRepo_def Let_def)

lemma readBody_nil: "readBody None = ''''"
  by (simp add: readBody_def)

lemma readBody_unreadable: "Body r = Inl re \<Longrightarrow> readBody (Some r) = ''''"
  by (simp add: readBody_def)

lemma readBody_read: "Body r = Inr b \<Longrightarrow> readBody (Some r) = b"
  by (simp add: readBody_def)

lemma offline_endpoints [simp]:
  "ArtifactsCreateExecute offline c x fp = (None, None, Some refused)"
  "OstreeCreateExecute offline c x repo = (None, None, Some refused)"
  "OstreeImportAllExecute offline c x h i = (None, None, Some refused)"
  "DistributionsCreateExecute offline c x d = (None, None, Some refused)"
  by (simp_all add: offline_def)

text \<open>
  Claim C8. \<open>readBody\<close> returns the empty string for a nil response and for a body that
  cannot be read, and the body otherwise. Whenever the remote call of an operation
  fails, the operation returns an error whose message is the operation's prefix, the
  message of the error the call returned, and the value of \<open>readBody\<close> in brackets. So
  with an unreadable body the message still carries the call's error, followed by empty
  brackets, and nothing of the read error.
\<close>

theorem remote_failure_message:
  "readBody None = ''''
   \<and> (Body r = Inl re \<longrightarrow> readBody (Some r) = '''')
   \<and> (Body r = Inr b \<longrightarrow> readBody (Some r) = b)
   \<and> (os_Open w path = Inr fp
       \<and> ArtifactsCreateExecute w (client cl) (ctx cl) fp = (ares, resp, Some e) \<longrightarrow>
        fst (UploadFile quote cl path w) =
          Inl (ErrorString (''failed to upload file '' @ quote path @ '': '' @ Error e
                             @ '' ('' @ readBody resp @ '')'')))
   \<and> (os_Open w path = Inr fp
       \<and> ArtifactsCreateExecute w (client cl) (ctx cl) fp = (ares, Some r, Some e)
       \<and> Body r = Inl re \<longrightarrow>
        fst (UploadFile quote cl path w) =
          Inl (ErrorString (''failed to upload file '' @ quote path @ '': '' @ Error e @ '' ()'')))
   \<and> (OstreeListExecute w (client cl) (ctx cl) = (lres, resp, Some e) \<longrightarrow>
        fst (ListOSTreeRepositories cl w) =
          Inl (ErrorString (''repository list request returned an error: '' @ Error e
                             @ '' ('' @ readBody resp @ '')'')))
   \<and> (OstreeCreateExecute w (client cl) (ctx cl)
         \<lparr>Name = name,
          Description = (if description \<noteq> '''' then NewNullableString (Some description)
                         else NullableString_zero)\<rparr> = (cres, resp, Some e) \<longrightarrow>
        fst (CreateOSTreeRepository cl name description w) =
          Inl (ErrorString (''repository creation failed: '' @ Error e
                             @ '' ('' @ readBody resp @ '')'')))
   \<and> (OstreeImportAllExecute w (client cl) (ctx cl) repoHref
         (NewOstreeImportAll commitHref ''repo'') = (ires, resp, Some e) \<longrightarrow>
        fst (ImportCommit cl commitHref repoHref w) =
          Some (Inl (ErrorString (''ostree commit import failed: '' @ Error e
                                   @ '' ('' @ readBody resp @ '')''))))
   \<and> (DistributionsCreateExecute w (client cl) (ctx cl)
         (SetRepository repoHref (NewOstreeOstreeDistribution basePath name))
         = (dres, resp, Some e) \<longrightarrow>
        fst (DistributeOSTreeRepo cl basePath name repoHref w) =
          Some (Inl (ErrorString (''error distributing ostree repository: '' @ Error e
                                   @ '' ('' @ readBody resp @ '')''))))
   \<and> (TasksReadExecute w (client cl) (ctx cl) task = (tres, resp, Some e) \<longrightarrow>
        fst (Client_TaskState cl task w) =
          Inl (ErrorString (''error reading task '' @ task @ '': '' @ Error e
                             @ '' ('' @ readBody resp @ '')'')))"
proof (intro conjI impI)
  show "readBody None = ''''"
    by (rule readBody_nil)
next
  assume "Body r = Inl re"
  then show "readBody (Some r) = ''''"
    by (rule readBody_unreadable)
next
  assume "Body r = Inr b"
  then show "readBody (Some r) = b"
    by (rule readBody_read)
next
  assume "os_Open w path = Inr fp
          \<and> ArtifactsCreateExecute w (client cl) (ctx cl) fp = (ares, resp, Some e)"
  then show "fst (UploadFile quote cl path w) =
          Inl (ErrorString (''failed to upload file '' @ quote path @ '': '' @ Error e
                             @ '' ('' @ readBody resp @ '')''))"
    by (simp add: UploadFile_rejected)
next
  assume "os_Open w path = Inr fp
          \<and> ArtifactsCreateExecute w (client cl) (ctx cl) fp = (ares, Some r, Some e)
          \<and> Body r = Inl re"
  then show "fst (UploadFile quote cl path w) =
          Inl (ErrorString (''failed to upload file '' @ quote path @ '': '' @ Error e @ '' ()''))"
    by (simp add: UploadFile_rejected readBody_unreadable)
next
  assume "OstreeListExecute w (client cl) (ctx cl) = (lres, resp, Some e)"
  then show "fst (ListOSTreeRepositories cl w) =
          Inl (ErrorString (''repository list request returned an error: '' @ Error e
                             @ '' ('' @ readBody resp @ '')''))"
    by (simp add: ListOSTreeRepositories_failed)
next
  assume "OstreeCreateExecute w (client cl) (ctx cl)
         \<lparr>Name = name,
          Description = (if description \<noteq> '''' then NewNullableString (Some description)
                         else NullableString_zero)\<rparr> = (cres, resp, Some e)"
  then show "fst (CreateOSTreeRepository cl name description w) =
          Inl (ErrorString (''repository creation failed: '' @ Error e
                             @ '' ('' @ readBody resp @ '')''))"
    by (rule CreateOSTreeRepository_failed)
next
  assume "OstreeImportAllExecute w (client cl) (ctx cl) repoHref
         (NewOstreeImportAll commitHref ''repo'') = (ires, resp, Some e)"
  then show "fst (ImportCommit cl commitHref repoHref w) =
          Some (Inl (ErrorString (''ostree commit import failed: '' @ Error e
                                   @ '' ('' @ readBody resp @ '')'')))"
    by (rule ImportCommit_failed)
next
  assume "DistributionsCreateExecute w (client cl) (ctx cl)
         (SetRepository repoHref (NewOstreeOstreeDistribution basePath name))
         = (dres, resp, Some e)"
  then show "fst (DistributeOSTreeRepo cl basePath name repoHref w) =
          Some (Inl (ErrorString (''error distributing ostree repository: '' @ Error e
                                   @ '' ('' @ readBody resp @ '')'')))"
    by (rule DistributeOSTreeRepo_failed)
next
  assume "TasksReadExecute w (client cl) (ctx cl) task = (tres, resp, Some e)"
  then show "fst (Client_TaskState cl task w) =
          Inl (ErrorString (''error reading task '' @ task @ '': '' @ Error e
                             @ '' ('' @ readBody resp @ '')''))"
    by (simp add: TaskState_failed)
qed

theorem remote_failure_message_witness:
  "readBody (Some broken500) = ''''
   \<and> readBody (Some denied403) = ''permission denied''
   \<and> fst (UploadFile plain_quote admin ''/tmp/commit.tar''
            (with_tarball (None, Some broken500, Some forbidden))) =
       Inl (ErrorString (''failed to upload file '' @ plain_quote ''/tmp/commit.tar''
                          @ '': 403 Forbidden ()''))
   \<and> fst (ListOSTreeRepositories admin offline) =
       Inl (ErrorString ''repository list request returned an error: connection refused ()'')
   \<and> fst (CreateOSTreeRepository admin ''fedora-40'' '''' offline) =
       Inl (ErrorString ''repository creation failed: connection refused ()'')
   \<and> fst (ImportCommit admin ''/pulp/api/v3/artifacts/9/''
            ''/pulp/api/v3/repositories/ostree/ostree/1/'' offline) =
       Some (Inl (ErrorString ''ostree commit import failed: connection refused ()''))
   \<and> fst (DistributeOSTreeRepo admin ''ostree/fedora-40'' ''fedora-40''
            ''/pulp/api/v3/repositories/ostree/ostree/1/'' offline) =
       Some (Inl (ErrorString ''error distributing ostree repository: connection refused ()''))
   \<and> fst (Client_TaskState admin ''/pulp/api/v3/tasks/1/'' offline) =
       Inl (ErrorString ''error reading task /pulp/api/v3/tasks/1/: connection refused ()'')"
proof -
  let ?up = "with_tarball (None, Some broken500, Some forbidden)"
  let ?tar = "''/tmp/commit.tar''"
  let ?repo = "''/pulp/api/v3/repositories/ostree/ostree/1/''"
  let ?commit = "''/pulp/api/v3/artifacts/9/''"
  let ?task = "''/pulp/api/v3/tasks/1/''"
  note unreadable =
    remote_failure_message
      [where r = broken500 and re = "ErrorString ''unexpected EOF''" and b = "''''"
         and w = ?up and path = ?tar and fp = "File ?tar" and cl = admin and quote = plain_quote
         and ares = None and resp = "Some broken500" and e = forbidden
         and lres = None and cres = None and ires = None and dres = None and tres = None
         and name = "''fedora-40''" and description = "''''" and repoHref = ?repo
         and commitHref = ?commit and basePath = "''ostree/fedora-40''" and task = ?task]
  note readable =
    remote_failure_message
      [where r = denied403 and re = "ErrorString ''unexpected EOF''" and b = "''permission denied''"
         and w = ?up and path = ?tar and fp = "File ?tar" and cl = admin and quote = plain_quote
         and ares = None and resp = "Some denied403" and e = forbidden
         and lres = None and cres = None and ires = None and dres = None and tres = None
         and name = "''fedora-40''" and description = "''''" and repoHref = ?repo
         and commitHref = ?commit and basePath = "''ostree/fedora-40''" and task = ?task]
  note unreachable =
    remote_failure_message
      [where r = broken500 and re = "ErrorString ''unexpected EOF''" and b = "''''"
         and w = offline and path = ?tar and fp = "File ?tar" and cl = admin and quote = plain_quote
         and ares = None and resp = None and e = refused
         and lres = None and cres = None and ires = None and dres = None and tres = None
         and name = "''fedora-40''" and description = "''''" and repoHref = ?repo
         and commitHref = ?commit and basePath = "''ostree/fedora-40''" and task = ?task]
  have body_error: "Body broken500 = Inl (ErrorString ''unexpected EOF'')"
    by (simp add: broken500_def)
  have body_text: "Body denied403 = Inr ''permission denied''"
    by (simp add: denied403_def)
  have upload: "os_Open ?up ?tar = Inr (File ?tar)
                \<and> ArtifactsCreateExecute ?up (client admin) (ctx admin) (File ?tar)
                    = (None, Some broken500, Some forbidden)"
    by simp
  have listed: "OstreeListExecute offline (client admin) (ctx admin) = (None, None, Some refused)"
    by simp
  have created: "OstreeCreateExecute offline (client admin) (ctx admin)
                   \<lparr>Name = ''fedora-40'',
                    Description = (if '''' \<noteq> '''' then NewNullableString (Some '''')
                                   else NullableString_zero)\<rparr> = (None, None, Some refused)"
    by (simp only: offline_endpoints)
  have imported: "OstreeImportAllExecute offline (client admin) (ctx admin) ?repo
                    (NewOstreeImportAll ?commit ''repo'') = (None, None, Some refused)"
    by simp
  have distributed: "DistributionsCreateExecute offline (client admin) (ctx admin)
                       (SetRepository ?repo (NewOstreeOstreeDistribution ''ostree/fedora-40'' ''fedora-40''))
                     = (None, None, Some refused)"
    by simp
  have read: "TasksReadExecute offline (client admin) (ctx admin) ?task = (None, None, Some refused)"
    by simp
  have w1: "readBody (Some broken500) = ''''"
    using unreadable body_error by blast
  have w2: "readBody (Some denied403) = ''permission denied''"
    using readable body_text by blast
  have w3: "fst (UploadFile plain_quote admin ?tar ?up) =
              Inl (ErrorString (''failed to upload file '' @ plain_quote ?tar @ '': ''
                                 @ Error forbidden @ '' ()''))"
    using unreadable body_error upload by blast
  have w4: "fst (ListOSTreeRepositories admin offline) =
              Inl (ErrorString (''repository list request returned an error: '' @ Error refused
                                 @ '' ('' @ readBody None @ '')''))"
    using unreachable listed by blast
  have w5: "fst (CreateOSTreeRepository admin ''fedora-40'' '''' offline) =
              Inl (ErrorString (''repository creation failed: '' @ Error refused
                                 @ '' ('' @ readBody None @ '')''))"
    using unreachable created by blast
  have w6: "fst (ImportCommit admin ?commit ?repo offline) =
              Some (Inl (ErrorString (''ostree commit import failed: '' @ Error refused
                                       @ '' ('' @ readBody None @ '')'')))"
    using unreachable imported by blast
  have w7: "fst (DistributeOSTreeRepo admin ''ostree/fedora-40'' ''fedora-40'' ?repo offline) =
              Some (Inl (ErrorString (''error distributing ostree repository: '' @ Error refused
                                       @ '' ('' @ readBody None @ '')'')))"
    using unreachable distributed by blast
  have w8: "fst (Client_TaskState admin ?task offline) =
              Inl (ErrorString (''error reading task '' @ ?task @ '': '' @ Error refused
                                 @ '' ('' @ readBody None @ '')''))"
    using unreachable read by blast
  have msg: "Error refused = ''connection refused''" "Error forbidden = ''403 Forbidden''"
    by (simp_all add: refused_def forbidden_def)
  show ?thesis
    using w1 w2 w3 w4 w5 w6 w7 w8 by (simp add: msg readBody_nil)
qed

end
